theory Spec2Isabelle
  imports Complex_Main
begin

section \<open>Numbers\<close>

text \<open>
  Both programs compute on IEEE 754 binary floating-point numbers: the browser client on
  JavaScript numbers (binary64), the feature extraction on numpy \<open>float32\<close> arrays
  (binary32). A number is a finite value, one of the two infinities, or NaN. A finite
  value is given by the real number it denotes; the two zeros are not distinguished.
\<close>

datatype flt = Fin real | PInf | NInf | NaN

datatype format = Binary32 | Binary64

text \<open>The precision in bits and the least and greatest exponent of a format.\<close>

fun prec :: "format \<Rightarrow> int" where
  "prec Binary32 = 24"
| "prec Binary64 = 53"

fun emin :: "format \<Rightarrow> int" where
  "emin Binary32 = - 126"
| "emin Binary64 = - 1022"

fun emax :: "format \<Rightarrow> int" where
  "emax Binary32 = 127"
| "emax Binary64 = 1023"

definition pow2 :: "int \<Rightarrow> real" where
  "pow2 k = (if 0 \<le> k then 2 ^ nat k else 1 / 2 ^ nat (- k))"

text \<open>The integer nearest to \<open>q\<close>, the even one of the two when \<open>q\<close> is half-way.\<close>

definition half_even :: "real \<Rightarrow> int" where
  "half_even q =
     (let f = \<lfloor>q\<rfloor>; d = q - of_int f
      in if d < 1 / 2 then f else if 1 / 2 < d then f + 1 else if even f then f else f + 1)"

text \<open>
  The exponent of the binade of \<open>x\<close>; below the least exponent the numbers are
  subnormal and keep the spacing of the least binade.
\<close>

definition binade :: "format \<Rightarrow> real \<Rightarrow> int" where
  "binade fmt x = max (emin fmt) \<lfloor>log 2 \<bar>x\<bar>\<rfloor>"

text \<open>
  Rounding to nearest, ties to even: the exact result \<open>x\<close> of an operation is replaced
  by the nearest multiple of the spacing of its binade, and by an infinity when that
  multiple is beyond the greatest finite number.
\<close>

definition rnd :: "format \<Rightarrow> real \<Rightarrow> flt" where
  "rnd fmt x =
     (if x = 0 then Fin 0
      else let u = pow2 (binade fmt x - prec fmt + 1);
               y = of_int (half_even (x / u)) * u
           in if pow2 (emax fmt + 1) \<le> \<bar>y\<bar> then (if 0 < x then PInf else NInf) else Fin y)"

text \<open>
  The arithmetic operations: the exact result of two finite operands is rounded; the
  special values follow the IEEE rules.
\<close>

fun fadd :: "format \<Rightarrow> flt \<Rightarrow> flt \<Rightarrow> flt" where
  "fadd fmt (Fin a) (Fin b) = rnd fmt (a + b)"
| "fadd fmt NaN _ = NaN"
| "fadd fmt _ NaN = NaN"
| "fadd fmt PInf NInf = NaN"
| "fadd fmt NInf PInf = NaN"
| "fadd fmt PInf _ = PInf"
| "fadd fmt _ PInf = PInf"
| "fadd fmt NInf _ = NInf"
| "fadd fmt _ NInf = NInf"

fun fsub :: "format \<Rightarrow> flt \<Rightarrow> flt \<Rightarrow> flt" where
  "fsub fmt (Fin a) (Fin b) = rnd fmt (a - b)"
| "fsub fmt NaN _ = NaN"
| "fsub fmt _ NaN = NaN"
| "fsub fmt PInf PInf = NaN"
| "fsub fmt NInf NInf = NaN"
| "fsub fmt PInf _ = PInf"
| "fsub fmt _ NInf = PInf"
| "fsub fmt NInf _ = NInf"
| "fsub fmt _ PInf = NInf"

fun fmul :: "format \<Rightarrow> flt \<Rightarrow> flt \<Rightarrow> flt" where
  "fmul fmt (Fin a) (Fin b) = rnd fmt (a * b)"
| "fmul fmt NaN _ = NaN"
| "fmul fmt _ NaN = NaN"
| "fmul fmt (Fin a) PInf = (if a = 0 then NaN else if 0 < a then PInf else NInf)"
| "fmul fmt (Fin a) NInf = (if a = 0 then NaN else if 0 < a then NInf else PInf)"
| "fmul fmt PInf (Fin b) = (if b = 0 then NaN else if 0 < b then PInf else NInf)"
| "fmul fmt NInf (Fin b) = (if b = 0 then NaN else if 0 < b then NInf else PInf)"
| "fmul fmt PInf PInf = PInf"
| "fmul fmt NInf NInf = PInf"
| "fmul fmt PInf NInf = NInf"
| "fmul fmt NInf PInf = NInf"

fun fdiv :: "format \<Rightarrow> flt \<Rightarrow> flt \<Rightarrow> flt" where
  "fdiv fmt (Fin a) (Fin b) =
     (if b = 0 then (if a = 0 then NaN else if 0 < a then PInf else NInf)
      else rnd fmt (a / b))"
| "fdiv fmt NaN _ = NaN"
| "fdiv fmt _ NaN = NaN"
| "fdiv fmt (Fin a) PInf = Fin 0"
| "fdiv fmt (Fin a) NInf = Fin 0"
| "fdiv fmt PInf (Fin b) = (if 0 \<le> b then PInf else NInf)"
| "fdiv fmt NInf (Fin b) = (if 0 \<le> b then NInf else PInf)"
| "fdiv fmt PInf PInf = NaN"
| "fdiv fmt PInf NInf = NaN"
| "fdiv fmt NInf PInf = NaN"
| "fdiv fmt NInf NInf = NaN"

fun fsqrt :: "format \<Rightarrow> flt \<Rightarrow> flt" where
  "fsqrt fmt (Fin a) = (if a < 0 then NaN else rnd fmt (sqrt a))"
| "fsqrt fmt PInf = PInf"
| "fsqrt fmt NInf = NaN"
| "fsqrt fmt NaN = NaN"

text \<open>\<open>a > b\<close> and \<open>a >= b\<close>: every comparison with NaN is false.\<close>

fun fgt :: "flt \<Rightarrow> flt \<Rightarrow> bool" where
  "fgt (Fin a) (Fin b) = (b < a)"
| "fgt NaN _ = False"
| "fgt _ NaN = False"
| "fgt PInf PInf = False"
| "fgt PInf _ = True"
| "fgt _ PInf = False"
| "fgt NInf _ = False"
| "fgt _ NInf = True"

fun fge :: "flt \<Rightarrow> flt \<Rightarrow> bool" where
  "fge (Fin a) (Fin b) = (b \<le> a)"
| "fge NaN _ = False"
| "fge _ NaN = False"
| "fge PInf _ = True"
| "fge _ NInf = True"
| "fge NInf _ = False"
| "fge _ PInf = False"

text \<open>
  numpy's \<open>maximum\<close> and \<open>minimum\<close>, which \<open>np.max\<close> and \<open>np.ptp\<close> reduce with:
  a NaN operand makes the result NaN. They do not round.
\<close>

fun fmax :: "flt \<Rightarrow> flt \<Rightarrow> flt" where
  "fmax (Fin a) (Fin b) = Fin (max a b)"
| "fmax NaN _ = NaN"
| "fmax _ NaN = NaN"
| "fmax PInf _ = PInf"
| "fmax _ PInf = PInf"
| "fmax NInf b = b"
| "fmax a NInf = a"

fun fmin :: "flt \<Rightarrow> flt \<Rightarrow> flt" where
  "fmin (Fin a) (Fin b) = Fin (min a b)"
| "fmin NaN _ = NaN"
| "fmin _ NaN = NaN"
| "fmin NInf _ = NInf"
| "fmin _ NInf = NInf"
| "fmin PInf b = b"
| "fmin a PInf = a"

text \<open>A landmark: the \<open>x\<close>, \<open>y\<close> and \<open>z\<close> of one of the 21 hand keypoints.\<close>

type_synonym point = "flt \<times> flt \<times> flt"

text \<open>
  Flattening a list of landmarks, landmark by landmark and \<open>x\<close>, \<open>y\<close>, \<open>z\<close> within each:
  \<open>lms.flatMap(p => [p.x, p.y, p.z])\<close> in the client, \<open>flatten()\<close> of a row-major array in
  the feature extraction.
\<close>

definition flatten :: "point list \<Rightarrow> flt list" where
  "flatten lms = concat (map (\<lambda>(x, y, z). [x, y, z]) lms)"

section \<open>The browser client\<close>

subsection \<open>Constants\<close>

text \<open>
  A literal denotes the double nearest to it: \<open>0.01\<close> is not a double and is rounded,
  \<open>0.75\<close> is one.
\<close>

definition SEND_EVERY_MS :: int where "SEND_EVERY_MS = 500"
definition THRESHOLD :: flt where "THRESHOLD = rnd Binary64 0.01"
definition CONF_THRESHOLD :: flt where "CONF_THRESHOLD = rnd Binary64 0.75"
definition DEBOUNCE_MS :: int where "DEBOUNCE_MS = 2000"

subsection \<open>State\<close>

text \<open>
  The \<open>confidence\<close> field of a response body, by what the client does with it.
  \<open>NoConfidence\<close>: the field is missing or \<open>null\<close>. \<open>Confidence x\<close>: it is the number \<open>x\<close>.
  \<open>NotANumber b\<close>: it is any other JSON value (a string, a boolean, an array or an
  object); such a value has no \<open>toFixed\<close> method, and \<open>b\<close> tells whether
  \<open>confidence >= CONF_THRESHOLD\<close> holds, which JavaScript evaluates after converting the
  operand to a number: true for the string \<open>"0.9"\<close> and for \<open>true\<close>, false for \<open>"abc"\<close>.
  When the conversion throws (an object with a field \<open>valueOf\<close> and a field \<open>toString\<close>),
  \<open>b\<close> is false: \<open>handlePrediction\<close> then throws with the state unchanged, as it does for
  every confidence that is not a number and for which the comparison is false.
\<close>

datatype confidence = NoConfidence | Confidence flt | NotANumber bool

text \<open>
  The \<open>prediction\<close> field of a response body, and the values of \<open>lastAccepted\<close>.
  \<open>Missing\<close>: the field is not in the body, its value is \<open>undefined\<close>. \<open>Null\<close>: it is
  \<open>null\<close>. \<open>Label l\<close>: it is the string \<open>l\<close>. \<open>OtherValue k r t\<close>: it is any other JSON
  value (a number, a boolean, an array or an object). \<open>k\<close> names the value as \<open>===\<close> sees
  it: two such values have the same name exactly when \<open>===\<close> holds of them, so an array or
  an object shares its name with no other value. \<open>r\<close> is the string that JavaScript
  converts the value to, \<open>None\<close> when the conversion throws a \<open>TypeError\<close> (an object with
  a field \<open>toString\<close>, which hides the method). \<open>t\<close> tells whether the value is truthy.
\<close>

datatype prediction = Missing | Null | Label string | OtherValue nat "string option" bool

text \<open>
  What the client writes to the log area. The clock time shown in the two prediction
  messages is left out.
\<close>

datatype log_msg =
    LogInitial
  | LogAccepted prediction flt
  | LogLowConfidence prediction confidence
  | LogError

text \<open>
  The module-level variables of the client, the text of the \<open>typedText\<close> and \<open>log\<close>
  elements, and \<open>pending\<close>: the payloads of the calls of \<open>sendPayload\<close> that are
  suspended at \<open>await fetch\<close>, oldest first. The source has no variable for \<open>pending\<close>;
  it is the part of the event loop that the client's behaviour depends on.
  \<open>lastAccepted\<close> starts as \<open>null\<close> and then holds the predictions that were committed.
\<close>

record client =
  lastFrameLandmarks :: "flt list option"
  lastSentLandmarks :: "flt list option"
  lastAccepted :: prediction
  lastAcceptTime :: int
  typed :: string
  logArea :: log_msg
  pending :: "flt list list"

definition init :: client where
  "init = \<lparr> lastFrameLandmarks = None, lastSentLandmarks = None, lastAccepted = Null,
            lastAcceptTime = 0, typed = [], logArea = LogInitial, pending = [] \<rparr>"

subsection \<open>Helper functions\<close>

text \<open>The loop of \<open>l2\<close>: \<open>s\<close> is \<open>sum\<close>, the two lists are what is left of \<open>a\<close> and \<open>b\<close>.\<close>

fun l2_loop :: "flt list \<Rightarrow> flt list \<Rightarrow> flt \<Rightarrow> flt" where
  "l2_loop (x # xs) (y # ys) s =
     (let d = fsub Binary64 x y in l2_loop xs ys (fadd Binary64 s (fmul Binary64 d d)))"
| "l2_loop _ _ s = s"

text \<open>
  \<open>!a\<close> is true of \<open>null\<close> only: an array, also an empty one, is truthy. For two empty
  arrays the result is \<open>Math.sqrt(0 / 0)\<close>, which is NaN. \<open>Math.sqrt\<close> is taken to be
  correctly rounded, as the engines compute it.
\<close>

fun l2 :: "flt list option \<Rightarrow> flt list option \<Rightarrow> flt" where
  "l2 (Some a) (Some b) =
     (if length a \<noteq> length b then PInf
      else fsqrt Binary64 (fdiv Binary64 (l2_loop a b (Fin 0)) (Fin (real (length a)))))"
| "l2 _ _ = PInf"

text \<open>
  \<open>appendLetter\<close> on the text of the \<open>typedText\<close> element. \<open>slice(0, -1)\<close> drops the last
  code unit and returns the empty string for the empty string.
\<close>

definition appendLetter :: "string \<Rightarrow> string \<Rightarrow> string" where
  "appendLetter letter txt =
     (if letter = ''space'' then txt @ '' ''
      else if letter = ''del'' then butlast txt
      else txt @ letter)"

text \<open>\<open>confidence >= CONF_THRESHOLD\<close>: \<open>undefined\<close> converts to NaN and \<open>null\<close> to 0.\<close>

fun ge_threshold :: "confidence \<Rightarrow> bool" where
  "ge_threshold NoConfidence = False"
| "ge_threshold (Confidence x) = fge x CONF_THRESHOLD"
| "ge_threshold (NotANumber b) = b"

text \<open>
  The value of \<open>prediction\<close> as a condition: \<open>undefined\<close>, \<open>null\<close> and the empty string are
  falsy.
\<close>

fun truthy :: "prediction \<Rightarrow> bool" where
  "truthy Missing = False"
| "truthy Null = False"
| "truthy (Label l) = (l \<noteq> [])"
| "truthy (OtherValue k r t) = t"

text \<open>\<open>prediction === lastAccepted\<close>, the negation of the test of the source.\<close>

fun same_value :: "prediction \<Rightarrow> prediction \<Rightarrow> bool" where
  "same_value Missing Missing = True"
| "same_value Null Null = True"
| "same_value (Label a) (Label b) = (a = b)"
| "same_value (OtherValue k r t) (OtherValue k' r' t') = (k = k')"
| "same_value _ _ = False"

text \<open>The string that a template literal and \<open>+=\<close> convert a prediction to.\<close>

fun to_text :: "prediction \<Rightarrow> string option" where
  "to_text Missing = Some ''undefined''"
| "to_text Null = Some ''null''"
| "to_text (Label l) = Some l"
| "to_text (OtherValue k r t) = r"

text \<open>
  \<open>appendLetter(prediction)\<close> for any value of \<open>prediction\<close>: a value that is not a string
  is neither \<open>'space'\<close> nor \<open>'del'\<close>, and \<open>+=\<close> appends the string it converts to; \<open>None\<close> when
  that conversion throws, before the text is assigned.
\<close>

fun commit_text :: "prediction \<Rightarrow> string \<Rightarrow> string option" where
  "commit_text (Label l) txt = Some (appendLetter l txt)"
| "commit_text p txt = map_option (\<lambda>r. txt @ r) (to_text p)"

text \<open>
  How a call of \<open>handlePrediction\<close> ends: it returns, or it throws a \<open>TypeError\<close>; in both
  cases with the state the client is in at that moment.
\<close>

datatype completion = Returns client | Throws client

text \<open>
  \<open>handlePrediction\<close>; \<open>now\<close> is what \<open>Date.now()\<close> returns. The log message of the first
  branch calls \<open>confidence.toFixed(2)\<close>, after the label was committed; the message of
  the second branch calls \<open>confidence?.toFixed(2)\<close>, which skips the call for a missing
  confidence only. For a confidence that is not a number the call throws, before the
  log area is assigned. Both messages convert the prediction to a string.
\<close>

definition handlePrediction :: "prediction \<Rightarrow> confidence \<Rightarrow> int \<Rightarrow> client \<Rightarrow> completion" where
  "handlePrediction prediction confidence now s =
     (if ge_threshold confidence \<and> truthy prediction then
        (case (if \<not> same_value prediction (lastAccepted s)
                    \<or> now - lastAcceptTime s > DEBOUNCE_MS
               then map_option
                      (\<lambda>txt. s\<lparr> typed := txt, lastAccepted := prediction, lastAcceptTime := now \<rparr>)
                      (commit_text prediction (typed s))
               else Some s) of
           None \<Rightarrow> Throws s
         | Some s1 \<Rightarrow>
             (case (to_text prediction, confidence) of
                (Some _, Confidence x) \<Rightarrow> Returns (s1\<lparr> logArea := LogAccepted prediction x \<rparr>)
              | _ \<Rightarrow> Throws s1))
      else (case (to_text prediction, confidence) of
              (None, _) \<Rightarrow> Throws s
            | (_, NotANumber _) \<Rightarrow> Throws s
            | _ \<Rightarrow> Returns (s\<lparr> logArea := LogLowConfidence prediction confidence \<rparr>)))"

subsection \<open>Sending a payload\<close>

text \<open>
  \<open>sendPayload\<close> runs up to \<open>await fetch\<close> when it is called: the request goes out and the
  call is suspended. It resumes when the request settles, with one of three outcomes:
  \<open>fetch\<close> rejects; the body cannot be read as JSON or is the JSON value \<open>null\<close>, whose
  fields cannot be read; or the fields \<open>prediction\<close> and \<open>confidence\<close> of the body are
  read and passed to \<open>handlePrediction\<close>. The first two end in the \<open>catch\<close> block, and so
  does an error thrown by \<open>handlePrediction\<close>: then the assignment to
  \<open>lastSentLandmarks\<close>, which follows the call, is not reached.
\<close>

datatype outcome = NetworkError | InvalidBody | Body prediction confidence

definition sendPayload_call :: "flt list \<Rightarrow> client \<Rightarrow> client" where
  "sendPayload_call flat s = s\<lparr> pending := pending s @ [flat] \<rparr>"

definition sendPayload_resume :: "flt list \<Rightarrow> outcome \<Rightarrow> int \<Rightarrow> client \<Rightarrow> client" where
  "sendPayload_resume flat out now s =
     (case out of
        Body prediction confidence \<Rightarrow>
          (case handlePrediction prediction confidence now s of
             Returns s' \<Rightarrow> s'\<lparr> lastSentLandmarks := Some flat \<rparr>
           | Throws s' \<Rightarrow> s'\<lparr> logArea := LogError \<rparr>)
      | _ \<Rightarrow> s\<lparr> logArea := LogError \<rparr>)"

subsection \<open>The MediaPipe callback and the periodic decision\<close>

text \<open>
  \<open>onResults\<close>, with the \<open>multiHandLandmarks\<close> field of its argument: \<open>None\<close> when the field
  is missing. The drawing on the canvas is left out.
\<close>

definition onResults :: "point list list option \<Rightarrow> client \<Rightarrow> client" where
  "onResults multiHandLandmarks s =
     s\<lparr> lastFrameLandmarks :=
          (case multiHandLandmarks of
             None \<Rightarrow> None
           | Some [] \<Rightarrow> None
           | Some (h # _) \<Rightarrow> Some (flatten h)) \<rparr>"

text \<open>The test of the periodic decision: \<open>delta > THRESHOLD\<close>.\<close>

definition shouldSubmit :: "flt list \<Rightarrow> flt list option \<Rightarrow> bool" where
  "shouldSubmit current lastSent = fgt (l2 (Some current) lastSent) THRESHOLD"

definition tick :: "client \<Rightarrow> client" where
  "tick s =
     (case lastFrameLandmarks s of
        None \<Rightarrow> s
      | Some cur \<Rightarrow> if shouldSubmit cur (lastSentLandmarks s) then sendPayload_call cur s else s)"

subsection \<open>Executions\<close>

text \<open>
  The event loop runs one callback at a time: a frame arrives, the timer fires, or the
  \<open>i\<close>-th pending request settles with an outcome at a time \<open>now\<close>.
\<close>

datatype event = Frame "point list list option" | Tick | Settle nat outcome int

fun step :: "client \<Rightarrow> event \<Rightarrow> client" where
  "step s (Frame r) = onResults r s"
| "step s Tick = tick s"
| "step s (Settle i out now) =
     (if i < length (pending s)
      then sendPayload_resume (pending s ! i) out now
             (s\<lparr> pending := take i (pending s) @ drop (Suc i) (pending s) \<rparr>)
      else s)"

definition run :: "client \<Rightarrow> event list \<Rightarrow> client" where
  "run s evs = foldl step s evs"

section \<open>Feature extraction\<close>

text \<open>
  The Python side: \<open>normalize_ptp\<close> of the notebook (the 60-element vector) and
  \<open>one_image_to_vector\<close> (the 65-element vector). An exception is an \<open>Inl\<close> result. The
  array \<open>lm\<close> has the type \<open>float32\<close>, and numpy computes its element-wise operations
  in that type.
\<close>

datatype py_error = IndexError | ValueError

fun psub :: "point \<Rightarrow> point \<Rightarrow> point" where
  "psub (x, y, z) (a, b, c) = (fsub Binary32 x a, fsub Binary32 y b, fsub Binary32 z c)"

fun pdiv :: "point \<Rightarrow> flt \<Rightarrow> point" where
  "pdiv (x, y, z) s = (fdiv Binary32 x s, fdiv Binary32 y s, fdiv Binary32 z s)"

fun pmax :: "point \<Rightarrow> point \<Rightarrow> point" where
  "pmax (x, y, z) (a, b, c) = (fmax x a, fmax y b, fmax z c)"

fun pmin :: "point \<Rightarrow> point \<Rightarrow> point" where
  "pmin (x, y, z) (a, b, c) = (fmin x a, fmin y b, fmin z c)"

text \<open>
  \<open>np.ptp(lm, axis=0)\<close>: for each of the three columns, the maximum minus the minimum,
  both reduced over the rows from the first one on. On an array without rows numpy
  raises \<open>ValueError\<close>.
\<close>

fun ptp_axis0 :: "point list \<Rightarrow> py_error + point" where
  "ptp_axis0 [] = Inl ValueError"
| "ptp_axis0 (p # ps) = Inr (psub (foldl pmax p ps) (foldl pmin p ps))"

text \<open>\<open>np.max\<close> of the three ranges.\<close>

fun np_max :: "point \<Rightarrow> flt" where
  "np_max (a, b, c) = fmax (fmax a b) c"

text \<open>\<open>m or 1.0\<close>: a number is falsy when it equals zero; NaN is truthy.\<close>

definition or_one :: "flt \<Rightarrow> flt" where
  "or_one m = (if m = Fin 0 then Fin 1 else m)"

text \<open>
  \<open>np.linalg.norm\<close> of a row is the square root of the dot product of the row with itself.
  numpy leaves the dot product to the BLAS library, which fixes neither the order nor
  the precision in which the three products are added up, so the norm is a parameter
  of \<open>one_image_to_vector\<close> below. \<open>norm3\<close> is the norm computed in \<open>float32\<close> from left to
  right.
\<close>

fun norm3 :: "point \<Rightarrow> flt" where
  "norm3 (x, y, z) =
     fsqrt Binary32
       (fadd Binary32 (fadd Binary32 (fmul Binary32 x x) (fmul Binary32 y y)) (fmul Binary32 z z))"

text \<open>\<open>[lm[i] for i in ids]\<close>: the first index out of range raises \<open>IndexError\<close>.\<close>

fun rows :: "point list \<Rightarrow> nat list \<Rightarrow> py_error + point list" where
  "rows lm [] = Inr []"
| "rows lm (i # ids) =
     (if i < length lm
      then (case rows lm ids of Inl e \<Rightarrow> Inl e | Inr ps \<Rightarrow> Inr (lm ! i # ps))
      else Inl IndexError)"

definition tip_ids :: "nat list" where
  "tip_ids = [4, 8, 12, 16, 20]"

text \<open>
  \<open>normalize_ptp\<close> of the notebook. \<open>lm[0]\<close> raises \<open>IndexError\<close> on an array without rows;
  the slice \<open>centred[1:]\<close> never raises.
\<close>

definition normalize_ptp :: "point list \<Rightarrow> py_error + flt list" where
  "normalize_ptp lm =
     (case lm of
        [] \<Rightarrow> Inl IndexError
      | wrist # _ \<Rightarrow>
          let centred = map (\<lambda>p. psub p wrist) lm in
          (case ptp_axis0 centred of
             Inl e \<Rightarrow> Inl e
           | Inr r \<Rightarrow>
               let scale = or_one (np_max r);
                   filtered = tl centred
               in Inr (flatten (map (\<lambda>p. pdiv p scale) filtered))))"

text \<open>
  The numeric part of \<open>one_image_to_vector\<close>, from the \<open>float32\<close> array of landmarks to
  the vector. \<open>lm -= lm[0]\<close> subtracts the first row as it was before the statement, also
  from itself (numpy copies an operand that overlaps the result).
\<close>

definition landmarks_to_vector :: "(point \<Rightarrow> flt) \<Rightarrow> point list \<Rightarrow> py_error + flt list" where
  "landmarks_to_vector nrm lm0 =
     (case lm0 of
        [] \<Rightarrow> Inl IndexError
      | wrist # _ \<Rightarrow>
          let lm1 = map (\<lambda>p. psub p wrist) lm0 in
          (case ptp_axis0 lm1 of
             Inl e \<Rightarrow> Inl e
           | Inr r \<Rightarrow>
               let scale = or_one (np_max r);
                   lm = map (\<lambda>p. pdiv p scale) lm1;
                   vec60 = flatten (tl lm)
               in (case rows lm tip_ids of
                     Inl e \<Rightarrow> Inl e
                   | Inr tips \<Rightarrow> Inr (vec60 @ map nrm tips))))"

text \<open>
  What \<open>one_image_to_vector\<close> finds at a path: a file that \<open>cv2.imread\<close> cannot decode, or
  an image, given with the \<open>multi_hand_landmarks\<close> that MediaPipe returns for it (\<open>None\<close>
  or a list of hands), as \<open>float32\<close> values.
\<close>

datatype image_file = Unreadable | Readable "point list list option"

text \<open>
  \<open>one_image_to_vector\<close>; \<open>label\<close> is the name of the image's directory. The result is the
  pair of the label and either an error message or the vector.
\<close>

definition one_image_to_vector ::
    "(point \<Rightarrow> flt) \<Rightarrow> string \<Rightarrow> image_file \<Rightarrow> py_error + (string \<times> (string + flt list))" where
  "one_image_to_vector nrm label file =
     (if label = ''nothing'' then Inr (label, Inl ''class_nothing'')
      else case file of
        Unreadable \<Rightarrow> Inr (label, Inl ''corrupt_image'')
      | Readable None \<Rightarrow> Inr (label, Inl ''no_hand'')
      | Readable (Some []) \<Rightarrow> Inr (label, Inl ''no_hand'')
      | Readable (Some (hand # _)) \<Rightarrow>
          (case landmarks_to_vector nrm hand of
             Inl e \<Rightarrow> Inl e
           | Inr v \<Rightarrow> Inr (label, Inr v)))"

section \<open>The specification's functions\<close>

text \<open>
  The definitions of this section follow the words of the specification. The theorems
  below compare them with the functions of the two programs.
\<close>

subsection \<open>The stability distance\<close>



subsection \<open>The acceptance rules\<close>

datatype reason = LowConfidence | Duplicate

datatype decision = Commit string | Reject reason

text \<open>The closed alphabet: 26 letters and the two control symbols.\<close>

definition alphabet :: "string list" where
  "alphabet = map (\<lambda>c. [c]) ''ABCDEFGHIJKLMNOPQRSTUVWXYZ'' @ [''space'', ''del'']"

text \<open>The three rules of the acceptance gate, in order.\<close>

definition spec_accept :: "string \<Rightarrow> real \<Rightarrow> string option \<Rightarrow> int \<Rightarrow> int \<Rightarrow> decision" where
  "spec_accept label confidence lastAcceptedLabel acceptTime now =
     (if confidence < 0.75 \<or> label = [] \<or> label \<notin> set alphabet then Reject LowConfidence
      else if Some label = lastAcceptedLabel \<and> now - acceptTime \<le> 2000 then Reject Duplicate
      else Commit label)"

text \<open>The acceptance state of the client: the last accepted label and its time.\<close>

definition acceptance :: "client \<Rightarrow> prediction \<times> int" where
  "acceptance s = (lastAccepted s, lastAcceptTime s)"

subsection \<open>Normalisation\<close>













subsection \<open>Auxiliary notions and sample data\<close>


text \<open>The double nearest to 0.01, and its two neighbours below and above.\<close>

definition double_001 :: real where
  "double_001 = 5764607523034235 / 2 ^ 59"







text \<open>A hand held still in the middle of the image.\<close>

definition hand0 :: "point list" where
  "hand0 = replicate 21 (Fin 0.5, Fin 0.5, Fin 0)"


text \<open>A pose of finite \<open>float32\<close> values whose differences overflow.\<close>

definition two_127 :: real where
  "two_127 = 2 ^ 127"

definition overflow_pose :: "point list" where
  "overflow_pose = (Fin two_127, Fin 0, Fin 0) # replicate 20 (Fin (- two_127), Fin 1, Fin 0)"

text \<open>A pose whose wrist has a NaN coordinate.\<close>

definition nan_pose :: "point list" where
  "nan_pose = (NaN, Fin 0, Fin 0) # replicate 20 (Fin 0, Fin 0, Fin 0)"

text \<open>The client after the letter A was accepted at time 1000.\<close>

definition st_A :: client where
  "st_A = init\<lparr> typed := ''A'', lastAccepted := Label ''A'', lastAcceptTime := 1000 \<rparr>"

text \<open>The client with one request pending, for the vector of \<open>hand0\<close>.\<close>

definition st_pending :: client where
  "st_pending = init\<lparr> lastFrameLandmarks := Some (flatten hand0), pending := [flatten hand0] \<rparr>"

section \<open>Rounding\<close>

lemma pow2_powr: "pow2 k = 2 powr (of_int k)"
proof (cases "0 \<le> k")
  case True
  then show ?thesis
    using powr_realpow [of 2 "nat k"] by (simp add: pow2_def)
next
  case False
  then have "real_of_int k = - real (nat (- k))" by simp
  then have "2 powr (real_of_int k) = inverse (2 powr real (nat (- k)))"
    by (simp only: powr_minus)
  also have "\<dots> = 1 / 2 ^ nat (- k)"
    using powr_realpow [of 2 "nat (- k)"] by (simp add: divide_inverse)
  finally show ?thesis using False by (simp add: pow2_def)
qed

lemma pow2_pos [simp]: "0 < pow2 k"
  by (simp add: pow2_powr)

lemma pow2_not_le [simp]: "\<not> pow2 k \<le> 0"
  using pow2_pos [of k] by linarith

lemma pow2_abs [simp]: "\<bar>pow2 k\<bar> = pow2 k"
  using pow2_pos [of k] by linarith

lemma pow2_add: "pow2 (a + b) = pow2 a * pow2 b"
  by (simp add: pow2_powr powr_add)

lemma pow2_nonneg_int: "0 \<le> k \<Longrightarrow> pow2 k = of_int (2 ^ nat k)"
  by (simp add: pow2_def)

lemma rnd_zero [simp]: "rnd fmt 0 = Fin 0"
  by (simp add: rnd_def)

lemma binade_eqI:
  assumes "pow2 e \<le> \<bar>x\<bar>" "\<bar>x\<bar> < pow2 (e + 1)" "emin fmt \<le> e"
  shows "binade fmt x = e"
proof -
  have pos: "0 < \<bar>x\<bar>" using assms(1) pow2_pos [of e] by linarith
  have "\<lfloor>log 2 \<bar>x\<bar>\<rfloor> = e"
    using assms(1,2) pos by (simp add: floor_log_eq_powr_iff pow2_powr)
  then show ?thesis using assms(3) by (simp add: binade_def)
qed

lemma half_even_near:
  assumes "\<bar>q - of_int n\<bar> < 1 / 2"
  shows "half_even q = n"
proof (cases "of_int n \<le> q")
  case True
  then have "\<lfloor>q\<rfloor> = n" using assms by (intro floor_unique) auto
  then show ?thesis using assms True by (simp add: half_even_def Let_def)
next
  case False
  then have f: "\<lfloor>q\<rfloor> = n - 1" using assms by (intro floor_unique) auto
  have "1 / 2 < q - of_int (n - 1)" using assms False by auto
  then show ?thesis using f by (simp add: half_even_def Let_def)
qed

lemma half_even_of_int [simp]: "half_even (of_int n) = n"
  by (rule half_even_near) simp

text \<open>The value of a rounding that is not a tie.\<close>

lemma rnd_nearest:
  assumes "pow2 e \<le> \<bar>x\<bar>" "\<bar>x\<bar> < pow2 (e + 1)" "emin fmt \<le> e"
    and "\<bar>x / pow2 (e - prec fmt + 1) - of_int n\<bar> < 1 / 2"
    and "\<bar>of_int n * pow2 (e - prec fmt + 1)\<bar> < pow2 (emax fmt + 1)"
  shows "rnd fmt x = Fin (of_int n * pow2 (e - prec fmt + 1))"
proof -
  have nz: "x \<noteq> 0" using assms(1) pow2_pos [of e] by auto
  have b: "binade fmt x = e" by (rule binade_eqI [OF assms(1-3)])
  have h: "half_even (x / pow2 (e - prec fmt + 1)) = n" by (rule half_even_near [OF assms(4)])
  show ?thesis using nz assms(5) by (simp add: rnd_def b h Let_def not_le)
qed

lemma rnd_nearestI:
  assumes "y = of_int n * pow2 (e - prec fmt + 1)"
    and "pow2 e \<le> \<bar>x\<bar>" "\<bar>x\<bar> < pow2 (e + 1)" "emin fmt \<le> e"
    and "\<bar>x / pow2 (e - prec fmt + 1) - of_int n\<bar> < 1 / 2"
    and "\<bar>y\<bar> < pow2 (emax fmt + 1)"
  shows "rnd fmt x = Fin y"
  using rnd_nearest [OF assms(2-5)] assms(6) unfolding assms(1) by simp


text \<open>A number of the format is rounded to itself.\<close>

lemma rnd_exact:
  assumes x: "x = of_int m * pow2 j"
    and m: "\<bar>m\<bar> < 2 ^ nat (prec fmt)"
    and j: "emin fmt - prec fmt + 1 \<le> j"
    and ov: "\<bar>x\<bar> < pow2 (emax fmt + 1)"
  shows "rnd fmt x = Fin x"
proof (cases "x = 0")
  case True
  then show ?thesis by simp
next
  case False
  define b where "b = binade fmt x"
  define k where "k = j - b + prec fmt - 1"
  have ppos: "0 < prec fmt" by (cases fmt) simp_all
  have absx: "\<bar>x\<bar> = of_int \<bar>m\<bar> * pow2 j" by (simp add: x abs_mult)
  have "of_int \<bar>m\<bar> < (2::real) ^ nat (prec fmt)"
    using m by (metis of_int_less_iff of_int_numeral of_int_power)
  then have "\<bar>x\<bar> < 2 ^ nat (prec fmt) * pow2 j"
    unfolding absx by (simp add: mult_strict_right_mono)
  also have "\<dots> = pow2 (prec fmt + j)"
  proof -
    have "(2::real) ^ nat (prec fmt) = pow2 (prec fmt)" using ppos by (simp add: pow2_def)
    then show ?thesis by (simp only: pow2_add)
  qed
  finally have lt: "\<bar>x\<bar> < pow2 (prec fmt + j)" .
  have "log 2 \<bar>x\<bar> < of_int (prec fmt + j)"
    using lt False by (simp add: pow2_powr log_less_iff)
  then have "\<lfloor>log 2 \<bar>x\<bar>\<rfloor> < prec fmt + j" by (simp add: floor_less_iff)
  then have "b \<le> prec fmt + j - 1" using j by (simp add: b_def binade_def)
  then have k0: "0 \<le> k" by (simp add: k_def)
  have "x / pow2 (b - prec fmt + 1) = of_int m * (pow2 j / pow2 (b - prec fmt + 1))"
    by (simp add: x)
  also have "pow2 j / pow2 (b - prec fmt + 1) = pow2 k"
    by (simp add: pow2_powr k_def powr_diff [symmetric] algebra_simps)
  also have "of_int m * pow2 k = of_int (m * 2 ^ nat k)"
    using k0 by (simp add: pow2_nonneg_int)
  finally have q: "x / pow2 (b - prec fmt + 1) = of_int (m * 2 ^ nat k)" .
  have y: "of_int (m * 2 ^ nat k) * pow2 (b - prec fmt + 1) = x"
    using q by (metis nonzero_eq_divide_eq pow2_pos less_irrefl)
  show ?thesis
    using False ov
    by (simp add: rnd_def b_def [symmetric] q y Let_def not_le del: of_int_mult of_int_power)
qed

text \<open>Integers below \<open>2\<^sup>2\<^sup>4\<close> are numbers of both formats.\<close>

lemma rnd_int:
  assumes "\<bar>k\<bar> < 2 ^ 24"
  shows "rnd fmt (of_int k) = Fin (of_int k)"
proof (rule rnd_exact [where m = k and j = 0])
  show "real_of_int k = of_int k * pow2 0" by (simp add: pow2_def)
  show "\<bar>k\<bar> < 2 ^ nat (prec fmt)" using assms by (cases fmt) simp_all
  show "emin fmt - prec fmt + 1 \<le> 0" by (cases fmt) simp_all
  have "\<bar>real_of_int k\<bar> < 2 ^ 24" using assms by (metis of_int_abs of_int_less_iff of_int_numeral of_int_power)
  then show "\<bar>real_of_int k\<bar> < pow2 (emax fmt + 1)" by (cases fmt) (simp_all add: pow2_def)
qed

lemma rnd_numeral [simp]:
  "numeral w < (2 ^ 24 :: int) \<Longrightarrow> rnd fmt (numeral w) = Fin (numeral w)"
  using rnd_int [of "numeral w" fmt] by simp

lemma rnd_one [simp]: "rnd fmt 1 = Fin 1"
  using rnd_int [of 1 fmt] by simp

subsection \<open>The constants of the client\<close>

lemma THRESHOLD_eq: "THRESHOLD = Fin double_001"
  unfolding THRESHOLD_def
  by (rule rnd_nearestI [where e = "- 7" and n = 5764607523034235])
     (simp_all add: double_001_def pow2_def)

lemma CONF_THRESHOLD_eq: "CONF_THRESHOLD = Fin 0.75"
  unfolding CONF_THRESHOLD_def
  by (rule rnd_exact [where m = 3 and j = "- 2"]) (simp_all add: pow2_def)

lemma double_001_pos: "0 < double_001" "0 \<le> double_001"
  by (simp_all add: double_001_def)

subsection \<open>The doubles next to the threshold\<close>





section \<open>The text buffer\<close>

text \<open>
  C9. Deleting removes exactly the last character of a non-empty buffer and leaves an
  empty buffer empty; the label \<open>space\<close> appends exactly one space; every other label is
  appended. The three operations are total: they return a buffer for every buffer.
\<close>

theorem C9_text_buffer_total:
  "appendLetter ''del'' (txt @ [c]) = txt
   \<and> appendLetter ''del'' [] = []
   \<and> appendLetter ''space'' txt = txt @ [CHR '' '']
   \<and> length (appendLetter ''del'' txt) = length txt - 1
   \<and> length (appendLetter ''space'' txt) = length txt + 1
   \<and> (letter \<noteq> ''space'' \<and> letter \<noteq> ''del'' \<longrightarrow> appendLetter letter txt = txt @ letter)"
  by (simp add: appendLetter_def)

theorem C9_text_buffer_total_witness:
  "appendLetter ''del'' (''ab'' @ [CHR ''c'']) = ''ab''
   \<and> appendLetter ''del'' [] = []
   \<and> appendLetter ''space'' ''ab'' = ''ab ''
   \<and> length (appendLetter ''del'' ''ab'') = 1
   \<and> length (appendLetter ''space'' ''ab'') = 3
   \<and> ''X'' \<noteq> ''space'' \<and> ''X'' \<noteq> ''del'' \<and> appendLetter ''X'' ''ab'' = ''abX''"
  using C9_text_buffer_total [of "''ab''" "CHR ''c''" "''X''"] by simp

section \<open>The stability gate\<close>

subsection \<open>The computed distance\<close>



subsection \<open>The distance of a vector to itself\<close>












text \<open>
  C10. For two vectors of unequal length, \<open>l2\<close> returns Infinity and the current vector is
  submitted: a tick with such a pending sample and last sent vector sends the request.
\<close>

theorem C10_length_mismatch:
  "length a \<noteq> length b \<Longrightarrow>
   l2 (Some a) (Some b) = PInf
   \<and> shouldSubmit a (Some b)
   \<and> (lastFrameLandmarks s = Some a \<and> lastSentLandmarks s = Some b \<longrightarrow>
        tick s = s\<lparr> pending := pending s @ [a] \<rparr>)"
  by (simp add: shouldSubmit_def THRESHOLD_eq tick_def sendPayload_call_def)

theorem C10_length_mismatch_witness:
  "length (replicate 65 (Fin 0)) \<noteq> length (replicate 60 (Fin 0))
   \<and> l2 (Some (replicate 65 (Fin 0))) (Some (replicate 60 (Fin 0))) = PInf
   \<and> shouldSubmit (replicate 65 (Fin 0)) (Some (replicate 60 (Fin 0)))
   \<and> tick (init\<lparr> lastFrameLandmarks := Some (replicate 65 (Fin 0)),
                 lastSentLandmarks := Some (replicate 60 (Fin 0)) \<rparr>)
       = init\<lparr> lastFrameLandmarks := Some (replicate 65 (Fin 0)),
               lastSentLandmarks := Some (replicate 60 (Fin 0)),
               pending := [replicate 65 (Fin 0)] \<rparr>"
  using C10_length_mismatch [of "replicate 65 (Fin 0)" "replicate 60 (Fin 0)"
      "init\<lparr> lastFrameLandmarks := Some (replicate 65 (Fin 0)),
             lastSentLandmarks := Some (replicate 60 (Fin 0)) \<rparr>"]
  by (simp add: init_def)

section \<open>The acceptance gate\<close>

lemma alphabet_28: "length alphabet = 28 \<and> distinct alphabet"
  by (simp add: alphabet_def)

text \<open>
  C2, as the client implements it. A prediction is rejected as of low confidence when
  its confidence is below 0.75 or its label is empty; a confidence of exactly 0.75 is
  not rejected for that reason. Otherwise it is rejected as a duplicate when its label
  is the last accepted one and at most 2000 ms have passed since; otherwise the label is
  committed. The client does not compare the label with the alphabet.
\<close>

theorem C2_acceptance_rules:
  "(conf < 0.75 \<or> label = [] \<longrightarrow>
      handlePrediction (Label label) (Confidence (Fin conf)) now s
        = Returns (s\<lparr> logArea := LogLowConfidence (Label label) (Confidence (Fin conf)) \<rparr>))
   \<and> (\<not> (conf < 0.75 \<or> label = []) \<and> lastAccepted s = Label label
        \<and> now - lastAcceptTime s \<le> 2000 \<longrightarrow>
      handlePrediction (Label label) (Confidence (Fin conf)) now s
        = Returns (s\<lparr> logArea := LogAccepted (Label label) (Fin conf) \<rparr>))
   \<and> (\<not> (conf < 0.75 \<or> label = [])
        \<and> \<not> (lastAccepted s = Label label \<and> now - lastAcceptTime s \<le> 2000) \<longrightarrow>
      handlePrediction (Label label) (Confidence (Fin conf)) now s
        = Returns (s\<lparr> typed := appendLetter label (typed s), lastAccepted := Label label,
                      lastAcceptTime := now, logArea := LogAccepted (Label label) (Fin conf) \<rparr>))"
proof -
  have e: "same_value (Label label) (lastAccepted s) \<longleftrightarrow> lastAccepted s = Label label"
    by (cases "lastAccepted s") auto
  show ?thesis
    by (auto simp: handlePrediction_def CONF_THRESHOLD_eq DEBOUNCE_MS_def e)
qed

theorem C2_acceptance_rules_witness:
  "handlePrediction (Label ''A'') (Confidence (Fin 0.74)) 5000 st_A
     = Returns (st_A\<lparr> logArea := LogLowConfidence (Label ''A'') (Confidence (Fin 0.74)) \<rparr>)
   \<and> handlePrediction (Label ''A'') (Confidence (Fin 0.75)) 3000 st_A
     = Returns (st_A\<lparr> logArea := LogAccepted (Label ''A'') (Fin 0.75) \<rparr>)
   \<and> handlePrediction (Label ''A'') (Confidence (Fin 0.75)) 3001 st_A
     = Returns (st_A\<lparr> typed := ''AA'', lastAccepted := Label ''A'', lastAcceptTime := 3001,
                       logArea := LogAccepted (Label ''A'') (Fin 0.75) \<rparr>)"
  using C2_acceptance_rules [of "0.74" "''A''" 5000 st_A]
        C2_acceptance_rules [of "0.75" "''A''" 3000 st_A]
        C2_acceptance_rules [of "0.75" "''A''" 3001 st_A]
  by (simp add: st_A_def init_def appendLetter_def)

text \<open>
  The label \<open>hello\<close> is not in the alphabet, so the rules as the specification states
  them reject it; the client commits it.
\<close>

theorem C2_unknown_label_counterexample:
  "spec_accept ''hello'' 0.9 None 0 5000 = Reject LowConfidence
   \<and> handlePrediction (Label ''hello'') (Confidence (Fin 0.9)) 5000 init
       = Returns (init\<lparr> typed := ''hello'', lastAccepted := Label ''hello'',
                        lastAcceptTime := 5000, logArea := LogAccepted (Label ''hello'') (Fin 0.9) \<rparr>)"
  by (simp add: spec_accept_def alphabet_def handlePrediction_def init_def appendLetter_def
        CONF_THRESHOLD_eq DEBOUNCE_MS_def)

text \<open>
  C6, as the client implements it. The acceptance state changes only when a prediction
  is committed: then the last accepted label becomes that prediction, the accept time
  becomes the current time, and the text is edited once. It is unchanged when the
  request fails or its body cannot be read, when the prediction is missing or falsy,
  when the confidence is missing, when the confidence is a number and the prediction is
  rejected or cannot be converted to a string, when the confidence is not a number and
  fails the comparison with the threshold, and by frames and ticks.
\<close>

theorem C6_acceptance_state:
  "acceptance (sendPayload_resume flat NetworkError now s) = acceptance s
   \<and> typed (sendPayload_resume flat NetworkError now s) = typed s
   \<and> acceptance (sendPayload_resume flat InvalidBody now s) = acceptance s
   \<and> typed (sendPayload_resume flat InvalidBody now s) = typed s
   \<and> (\<not> truthy p \<longrightarrow>
        acceptance (sendPayload_resume flat (Body p c) now s) = acceptance s
        \<and> typed (sendPayload_resume flat (Body p c) now s) = typed s)
   \<and> acceptance (sendPayload_resume flat (Body p NoConfidence) now s) = acceptance s
   \<and> typed (sendPayload_resume flat (Body p NoConfidence) now s) = typed s
   \<and> acceptance (sendPayload_resume flat (Body p (NotANumber False)) now s) = acceptance s
   \<and> typed (sendPayload_resume flat (Body p (NotANumber False)) now s) = typed s
   \<and> (\<not> fge x (Fin 0.75) \<or> \<not> truthy p \<or> to_text p = None
        \<or> (same_value p (lastAccepted s) \<and> now - lastAcceptTime s \<le> 2000) \<longrightarrow>
        acceptance (sendPayload_resume flat (Body p (Confidence x)) now s) = acceptance s
        \<and> typed (sendPayload_resume flat (Body p (Confidence x)) now s) = typed s)
   \<and> (\<not> (\<not> fge x (Fin 0.75) \<or> \<not> truthy p \<or> to_text p = None
           \<or> (same_value p (lastAccepted s) \<and> now - lastAcceptTime s \<le> 2000)) \<longrightarrow>
        acceptance (sendPayload_resume flat (Body p (Confidence x)) now s) = (p, now)
        \<and> Some (typed (sendPayload_resume flat (Body p (Confidence x)) now s))
          = commit_text p (typed s))
   \<and> acceptance (onResults r s) = acceptance s
   \<and> acceptance (tick s) = acceptance s"
proof -
  have ct: "to_text p = None \<Longrightarrow> commit_text p t = None" for t
    by (cases p) auto
  have cs: "to_text p = Some r \<Longrightarrow> \<exists>t'. commit_text p t = Some t'" for t r
    by (cases p) auto
  have a: "acceptance (sendPayload_resume flat NetworkError now s) = acceptance s
     \<and> typed (sendPayload_resume flat NetworkError now s) = typed s
     \<and> acceptance (sendPayload_resume flat InvalidBody now s) = acceptance s
     \<and> typed (sendPayload_resume flat InvalidBody now s) = typed s
     \<and> acceptance (onResults r s) = acceptance s
     \<and> acceptance (tick s) = acceptance s"
    by (auto simp: acceptance_def sendPayload_resume_def onResults_def tick_def
          sendPayload_call_def split: option.splits)
  have b: "\<not> truthy p \<Longrightarrow>
        acceptance (sendPayload_resume flat (Body p c) now s) = acceptance s
        \<and> typed (sendPayload_resume flat (Body p c) now s) = typed s"
    by (auto simp: acceptance_def sendPayload_resume_def handlePrediction_def
          split: option.splits confidence.splits)
  have c: "acceptance (sendPayload_resume flat (Body p NoConfidence) now s) = acceptance s
     \<and> typed (sendPayload_resume flat (Body p NoConfidence) now s) = typed s
     \<and> acceptance (sendPayload_resume flat (Body p (NotANumber False)) now s) = acceptance s
     \<and> typed (sendPayload_resume flat (Body p (NotANumber False)) now s) = typed s"
    by (auto simp: acceptance_def sendPayload_resume_def handlePrediction_def
          split: option.splits confidence.splits)
  have d: "\<not> fge x (Fin 0.75) \<or> \<not> truthy p \<or> to_text p = None
        \<or> (same_value p (lastAccepted s) \<and> now - lastAcceptTime s \<le> 2000) \<Longrightarrow>
        acceptance (sendPayload_resume flat (Body p (Confidence x)) now s) = acceptance s
        \<and> typed (sendPayload_resume flat (Body p (Confidence x)) now s) = typed s"
    by (auto simp: acceptance_def sendPayload_resume_def handlePrediction_def
          CONF_THRESHOLD_eq DEBOUNCE_MS_def ct split: option.splits confidence.splits)
  have e: "\<not> (\<not> fge x (Fin 0.75) \<or> \<not> truthy p \<or> to_text p = None
           \<or> (same_value p (lastAccepted s) \<and> now - lastAcceptTime s \<le> 2000)) \<Longrightarrow>
        acceptance (sendPayload_resume flat (Body p (Confidence x)) now s) = (p, now)
        \<and> Some (typed (sendPayload_resume flat (Body p (Confidence x)) now s))
          = commit_text p (typed s)"
    using cs [of _ "typed s"]
    by (auto simp: acceptance_def sendPayload_resume_def handlePrediction_def
          CONF_THRESHOLD_eq DEBOUNCE_MS_def split: option.splits confidence.splits)
  from a b c d e show ?thesis by blast
qed

theorem C6_acceptance_state_witness:
  "acceptance (sendPayload_resume [] NetworkError 3000 st_A) = (Label ''A'', 1000)
   \<and> acceptance (sendPayload_resume [] InvalidBody 3000 st_A) = (Label ''A'', 1000)
   \<and> \<not> truthy Missing
   \<and> acceptance (sendPayload_resume [] (Body Missing (Confidence (Fin 0.9))) 3000 st_A)
       = (Label ''A'', 1000)
   \<and> acceptance (sendPayload_resume [] (Body (Label ''B'') NoConfidence) 3000 st_A)
       = (Label ''A'', 1000)
   \<and> acceptance (sendPayload_resume [] (Body (Label ''B'') (NotANumber False)) 3000 st_A)
       = (Label ''A'', 1000)
   \<and> acceptance (sendPayload_resume [] (Body (Label ''A'') (Confidence (Fin 0.9))) 3000 st_A)
       = (Label ''A'', 1000)
   \<and> typed (sendPayload_resume [] (Body (Label ''A'') (Confidence (Fin 0.9))) 3000 st_A) = ''A''
   \<and> acceptance (sendPayload_resume [] (Body (Label ''B'') (Confidence (Fin 0.5))) 3000 st_A)
       = (Label ''A'', 1000)
   \<and> acceptance (sendPayload_resume [] (Body (Label ''B'') (Confidence (Fin 0.9))) 3000 st_A)
       = (Label ''B'', 3000)
   \<and> typed (sendPayload_resume [] (Body (Label ''B'') (Confidence (Fin 0.9))) 3000 st_A) = ''AB''
   \<and> acceptance (sendPayload_resume [] (Body (OtherValue 0 None True) (Confidence (Fin 0.9)))
         3000 st_A) = (Label ''A'', 1000)
   \<and> acceptance (sendPayload_resume [] (Body (OtherValue 7 (Some ''7'') True)
         (Confidence (Fin 0.9))) 3000 st_A) = (OtherValue 7 (Some ''7'') True, 3000)
   \<and> typed (sendPayload_resume [] (Body (OtherValue 7 (Some ''7'') True)
         (Confidence (Fin 0.9))) 3000 st_A) = ''A7''"
  using C6_acceptance_state [where s = st_A and now = 3000 and flat = "[]" and p = "Label ''A''"
          and x = "Fin 0.9"]
        C6_acceptance_state [where s = st_A and now = 3000 and flat = "[]" and p = Missing
          and c = "Confidence (Fin 0.9)"]
        C6_acceptance_state [where s = st_A and now = 3000 and flat = "[]" and p = "Label ''B''"
          and x = "Fin 0.5"]
        C6_acceptance_state [where s = st_A and now = 3000 and flat = "[]" and p = "Label ''B''"
          and x = "Fin 0.9"]
        C6_acceptance_state [where s = st_A and now = 3000 and flat = "[]"
          and p = "OtherValue 0 None True" and x = "Fin 0.9"]
        C6_acceptance_state [where s = st_A and now = 3000 and flat = "[]"
          and p = "OtherValue 7 (Some ''7'') True" and x = "Fin 0.9"]
  by (simp add: st_A_def init_def appendLetter_def acceptance_def)

text \<open>
  A response whose confidence is the string \<open>"0.9"\<close>: the comparison with the threshold
  holds after conversion, the label B is committed and the acceptance state changes;
  then the log message throws, the error is shown and the last sent vector is not
  set.
\<close>

theorem C6_invalid_response_counterexample:
  "sendPayload_resume [] (Body (Label ''B'') (NotANumber True)) 3000 st_A
     = st_A\<lparr> typed := ''AB'', lastAccepted := Label ''B'', lastAcceptTime := 3000,
             logArea := LogError \<rparr>
   \<and> acceptance st_A = (Label ''A'', 1000)
   \<and> acceptance (sendPayload_resume [] (Body (Label ''B'') (NotANumber True)) 3000 st_A)
       = (Label ''B'', 3000)"
  by (simp add: sendPayload_resume_def handlePrediction_def st_A_def init_def appendLetter_def
        acceptance_def DEBOUNCE_MS_def)

section \<open>The scheduler\<close>

lemma tick_submits:
  assumes "lastFrameLandmarks s = Some cur" "shouldSubmit cur (lastSentLandmarks s)"
  shows "tick s = s\<lparr> pending := pending s @ [cur] \<rparr>"
  using assms by (simp add: tick_def sendPayload_call_def)

lemma run_ticks:
  assumes "lastFrameLandmarks s = Some cur" "shouldSubmit cur (lastSentLandmarks s)"
  shows "run s (replicate n Tick) = s\<lparr> pending := pending s @ replicate n cur \<rparr>"
proof (induction n)
  case 0
  show ?case by (simp add: run_def)
next
  case (Suc n)
  have "replicate (Suc n) Tick = replicate n Tick @ [Tick]"
    by (simp add: replicate_append_same)
  then have "run s (replicate (Suc n) Tick) = tick (run s (replicate n Tick))"
    by (simp only: run_def foldl_append foldl.simps step.simps)
  also have "\<dots> = tick (s\<lparr> pending := pending s @ replicate n cur \<rparr>)"
    by (simp only: Suc.IH)
  also have "\<dots> = s\<lparr> pending := pending s @ replicate (Suc n) cur \<rparr>"
    using assms by (simp add: tick_submits replicate_append_same)
  finally show ?case .
qed

text \<open>
  C1, as the client implements it. The client keeps no in-flight flag. A tick at which a
  sample is present and its distance to the last sent vector exceeds the threshold
  sends a request, whatever the number of requests still pending; and as the last sent
  vector changes only when a response is handled, \<open>n\<close> such ticks in a row with no
  response in between send \<open>n\<close> requests, which are all pending together.
\<close>

theorem C1_no_in_flight_flag:
  "lastFrameLandmarks s = Some cur \<Longrightarrow> shouldSubmit cur (lastSentLandmarks s) \<Longrightarrow>
   tick s = s\<lparr> pending := pending s @ [cur] \<rparr>
   \<and> run s (replicate n Tick) = s\<lparr> pending := pending s @ replicate n cur \<rparr>
   \<and> length (pending (run s (replicate n Tick))) = length (pending s) + n"
  by (simp add: tick_submits run_ticks)

theorem C1_no_in_flight_flag_witness:
  "lastFrameLandmarks st_pending = Some (flatten hand0)
   \<and> shouldSubmit (flatten hand0) (lastSentLandmarks st_pending)
   \<and> length (pending st_pending) = 1
   \<and> pending (tick st_pending) = [flatten hand0, flatten hand0]
   \<and> length (pending (run st_pending (replicate 3 Tick))) = 4"
proof -
  have a: "lastFrameLandmarks st_pending = Some (flatten hand0)"
    by (simp add: st_pending_def)
  have b: "shouldSubmit (flatten hand0) (lastSentLandmarks st_pending)"
    by (simp add: st_pending_def init_def shouldSubmit_def THRESHOLD_eq)
  have c: "pending st_pending = [flatten hand0]"
    by (simp add: st_pending_def)
  show ?thesis
    using C1_no_in_flight_flag [OF a b, of 3] a b c by simp
qed

text \<open>
  A hand is seen and the timer fires three times before any response arrives: three
  requests are pending.
\<close>

theorem C1_three_outstanding_counterexample:
  "pending (run init [Frame (Some [hand0]), Tick, Tick, Tick])
     = [flatten hand0, flatten hand0, flatten hand0]"
  by (simp add: run_def onResults_def init_def tick_def shouldSubmit_def THRESHOLD_eq
        sendPayload_call_def)

text \<open>
  C7, as the client implements it. The last sent vector is not changed by a frame, by a
  tick (also one that sends a request), by a request that fails or whose body cannot
  be read, or by a response on which \<open>handlePrediction\<close> throws (a confidence that is
  not a number, a prediction that cannot be converted to a string). It is set, to the
  payload of the request, when the response of that request has been read and
  \<open>handlePrediction\<close> has returned: it holds the vector of the request whose response was
  last handled without an error, not of the request sent last.
\<close>

theorem C7_last_sent:
  "lastSentLandmarks (onResults r s) = lastSentLandmarks s
   \<and> lastSentLandmarks (tick s) = lastSentLandmarks s
   \<and> lastSentLandmarks (sendPayload_call flat s) = lastSentLandmarks s
   \<and> lastSentLandmarks (sendPayload_resume flat NetworkError now s) = lastSentLandmarks s
   \<and> lastSentLandmarks (sendPayload_resume flat InvalidBody now s) = lastSentLandmarks s
   \<and> lastSentLandmarks (sendPayload_resume flat (Body p (NotANumber b)) now s)
       = lastSentLandmarks s
   \<and> (to_text p = None \<longrightarrow>
        lastSentLandmarks (sendPayload_resume flat (Body p c) now s) = lastSentLandmarks s)
   \<and> (to_text p \<noteq> None \<longrightarrow>
        lastSentLandmarks (sendPayload_resume flat (Body p NoConfidence) now s) = Some flat
        \<and> lastSentLandmarks (sendPayload_resume flat (Body p (Confidence x)) now s) = Some flat)
   \<and> (i < length (pending s) \<longrightarrow>
        (to_text p \<noteq> None \<longrightarrow>
           lastSentLandmarks (step s (Settle i (Body p NoConfidence) now)) = Some (pending s ! i)
           \<and> lastSentLandmarks (step s (Settle i (Body p (Confidence x)) now))
             = Some (pending s ! i))
        \<and> (to_text p = None \<longrightarrow>
           lastSentLandmarks (step s (Settle i (Body p c) now)) = lastSentLandmarks s)
        \<and> lastSentLandmarks (step s (Settle i (Body p (NotANumber b)) now)) = lastSentLandmarks s
        \<and> lastSentLandmarks (step s (Settle i NetworkError now)) = lastSentLandmarks s
        \<and> lastSentLandmarks (step s (Settle i InvalidBody now)) = lastSentLandmarks s)"
proof -
  have ct: "to_text p = None \<Longrightarrow> commit_text p t = None" for t
    by (cases p) auto
  have cs: "to_text p = Some r \<Longrightarrow> \<exists>t'. commit_text p t = Some t'" for t r
    by (cases p) auto
  have a: "lastSentLandmarks (onResults r s) = lastSentLandmarks s
     \<and> lastSentLandmarks (tick s) = lastSentLandmarks s
     \<and> lastSentLandmarks (sendPayload_call flat s) = lastSentLandmarks s"
    by (auto simp: onResults_def tick_def sendPayload_call_def split: option.splits)
  have b: "lastSentLandmarks (sendPayload_resume f NetworkError now t) = lastSentLandmarks t
     \<and> lastSentLandmarks (sendPayload_resume f InvalidBody now t) = lastSentLandmarks t" for f t
    by (simp add: sendPayload_resume_def)
  have c: "lastSentLandmarks (sendPayload_resume f (Body p (NotANumber b)) now t)
       = lastSentLandmarks t" for f t
    by (auto simp: sendPayload_resume_def handlePrediction_def Let_def
          split: option.splits confidence.splits)
  have d: "to_text p = None \<Longrightarrow>
        lastSentLandmarks (sendPayload_resume f (Body p c) now t) = lastSentLandmarks t" for f t
    by (auto simp: sendPayload_resume_def handlePrediction_def ct
          split: option.splits confidence.splits)
  have e: "to_text p \<noteq> None \<Longrightarrow>
        lastSentLandmarks (sendPayload_resume f (Body p NoConfidence) now t) = Some f
        \<and> lastSentLandmarks (sendPayload_resume f (Body p (Confidence x)) now t) = Some f" for f t
    using cs [of _ "typed t"]
    by (auto simp: sendPayload_resume_def handlePrediction_def
          split: option.splits confidence.splits)
  have l: "lastSentLandmarks (t\<lparr> pending := q \<rparr>) = lastSentLandmarks t" for t q
    by simp
  have st: "step s (Settle i out now)
      = sendPayload_resume (pending s ! i) out now
          (s\<lparr> pending := take i (pending s) @ drop (Suc i) (pending s) \<rparr>)"
    if "i < length (pending s)" for out
    using that by simp
  show ?thesis
    using a b c d e by (simp add: st l)
qed

theorem C7_last_sent_witness:
  "(0::nat) < length (pending st_pending)
   \<and> lastSentLandmarks (tick st_pending) = None
   \<and> lastSentLandmarks (step st_pending (Settle 0 (Body (Label ''A'') (Confidence (Fin 0.9))) 3000))
       = Some (flatten hand0)
   \<and> lastSentLandmarks (step st_pending (Settle 0 (Body (Label ''A'') (NotANumber True)) 3000))
       = None
   \<and> to_text (OtherValue 0 None True) = None
   \<and> lastSentLandmarks
         (step st_pending (Settle 0 (Body (OtherValue 0 None True) (Confidence (Fin 0.9))) 3000))
       = None
   \<and> lastSentLandmarks (step st_pending (Settle 0 NetworkError 3000)) = None
   \<and> lastSentLandmarks (step st_pending (Settle 0 InvalidBody 3000)) = None"
proof -
  have a: "pending st_pending = [flatten hand0]" "lastSentLandmarks st_pending = None"
    by (simp_all add: st_pending_def init_def)
  have l: "0 < length (pending st_pending)" by (simp add: a)
  have t: "to_text (Label ''A'') \<noteq> None" by simp
  have u: "to_text (OtherValue 0 None True) = None" by simp
  note w = C7_last_sent [where s = st_pending and i = 0 and p = "Label ''A''" and x = "Fin 0.9"
        and b = True and now = 3000]
  note v = C7_last_sent [where s = st_pending and i = 0 and p = "OtherValue 0 None True"
        and c = "Confidence (Fin 0.9)" and now = 3000]
  from w l t have
    "lastSentLandmarks (step st_pending (Settle 0 (Body (Label ''A'') (Confidence (Fin 0.9))) 3000))
       = Some (pending st_pending ! 0)"
    "lastSentLandmarks (step st_pending (Settle 0 (Body (Label ''A'') (NotANumber True)) 3000))
       = lastSentLandmarks st_pending"
    "lastSentLandmarks (step st_pending (Settle 0 NetworkError 3000)) = lastSentLandmarks st_pending"
    "lastSentLandmarks (step st_pending (Settle 0 InvalidBody 3000)) = lastSentLandmarks st_pending"
    "lastSentLandmarks (tick st_pending) = lastSentLandmarks st_pending"
    by blast+
  moreover from v l u have
    "lastSentLandmarks
       (step st_pending (Settle 0 (Body (OtherValue 0 None True) (Confidence (Fin 0.9))) 3000))
       = lastSentLandmarks st_pending"
    by blast
  ultimately show ?thesis using l u by (simp add: a)
qed

text \<open>
  After a hand is seen and the timer fires, the request for its vector is pending and
  the last sent vector is still absent; it stays absent when the request fails.
\<close>

theorem C7_in_flight_counterexample:
  "pending (run init [Frame (Some [hand0]), Tick]) = [flatten hand0]
   \<and> lastSentLandmarks (run init [Frame (Some [hand0]), Tick]) = None
   \<and> pending (run init [Frame (Some [hand0]), Tick, Settle 0 NetworkError 3000]) = []
   \<and> lastSentLandmarks (run init [Frame (Some [hand0]), Tick, Settle 0 NetworkError 3000]) = None"
  by (simp add: run_def onResults_def init_def tick_def shouldSubmit_def THRESHOLD_eq
        sendPayload_call_def sendPayload_resume_def)

section \<open>Properties of the feature extraction\<close>

subsection \<open>The two functions on an array with a first row\<close>

lemma landmarks_to_vector_cons:
  assumes "lm0 = w # rest"
    and "ptp_axis0 (map (\<lambda>p. psub p w) lm0) = Inr r"
    and "rows (map (\<lambda>p. pdiv p (or_one (np_max r))) (map (\<lambda>p. psub p w) lm0)) tip_ids = Inr tips"
  shows "landmarks_to_vector nrm lm0
    = Inr (flatten (tl (map (\<lambda>p. pdiv p (or_one (np_max r))) (map (\<lambda>p. psub p w) lm0)))
           @ map nrm tips)"
proof -
  have "landmarks_to_vector nrm lm0 =
     (let lm1 = map (\<lambda>p. psub p w) lm0 in
          (case ptp_axis0 lm1 of
             Inl e \<Rightarrow> Inl e
           | Inr r \<Rightarrow>
               let scale = or_one (np_max r);
                   lm = map (\<lambda>p. pdiv p scale) lm1;
                   vec60 = flatten (tl lm)
               in (case rows lm tip_ids of
                     Inl e \<Rightarrow> Inl e
                   | Inr tips \<Rightarrow> Inr (vec60 @ map nrm tips))))"
    unfolding landmarks_to_vector_def by (subst assms(1)) (simp only: list.case)
  then show ?thesis
    by (simp only: Let_def assms(2) assms(3) sum.case)
qed

lemma normalize_ptp_cons:
  assumes "lm = w # rest"
    and "ptp_axis0 (map (\<lambda>p. psub p w) lm) = Inr r"
  shows "normalize_ptp lm
    = Inr (flatten (map (\<lambda>p. pdiv p (or_one (np_max r))) (tl (map (\<lambda>p. psub p w) lm))))"
proof -
  have "normalize_ptp lm
      = (let centred = map (\<lambda>p. psub p w) lm in
          (case ptp_axis0 centred of
             Inl e \<Rightarrow> Inl e
           | Inr r \<Rightarrow>
               let scale = or_one (np_max r);
                   filtered = tl centred
               in Inr (flatten (map (\<lambda>p. pdiv p scale) filtered))))"
    unfolding normalize_ptp_def by (subst assms(1)) (simp only: list.case)
  then show ?thesis
    by (simp only: Let_def assms(2) sum.case)
qed

subsection \<open>Rows and columns\<close>







lemma length_flatten: "length (flatten lm) = 3 * length lm"
  by (induction lm) (auto simp: flatten_def)


subsection \<open>Refinement of the specification's normalisation\<close>






subsection \<open>The order of the output\<close>





subsection \<open>The ranges of finite coordinates\<close>






subsection \<open>The sample pose\<close>







subsection \<open>A finite pose whose centring overflows\<close>

lemma rnd_overflow:
  assumes "pow2 e \<le> \<bar>x\<bar>" "\<bar>x\<bar> < pow2 (e + 1)" "emin fmt \<le> e"
    and "\<bar>x / pow2 (e - prec fmt + 1) - of_int n\<bar> < 1 / 2"
    and "pow2 (emax fmt + 1) \<le> \<bar>of_int n * pow2 (e - prec fmt + 1)\<bar>"
  shows "rnd fmt x = (if 0 < x then PInf else NInf)"
proof -
  have nz: "x \<noteq> 0" using assms(1) pow2_pos [of e] by auto
  have b: "binade fmt x = e" by (rule binade_eqI [OF assms(1-3)])
  have h: "half_even (x / pow2 (e - prec fmt + 1)) = n" by (rule half_even_near [OF assms(4)])
  show ?thesis using nz assms(5) by (simp add: rnd_def b h Let_def)
qed

lemma rnd_two_127: "rnd Binary32 (- (2 * two_127)) = NInf"
  using rnd_overflow [where fmt = Binary32 and e = 128 and n = "- (2 ^ 23)"
      and x = "- (2 * two_127)"]
  by (simp add: pow2_def two_127_def)

text \<open>
  The wrist at \<open>(2\<^sup>1\<^sup>2\<^sup>7, 0, 0)\<close> and the 20 other points at \<open>(-2\<^sup>1\<^sup>2\<^sup>7, 1, 0)\<close> are finite
  \<open>float32\<close> values; their difference overflows, the scale is infinite, and the vector
  has NaN elements.
\<close>

lemma normalize_ptp_overflow_pose:
  "normalize_ptp overflow_pose = Inr (concat (replicate 20 [NaN, Fin 0, Fin 0]))"
  by (simp add: normalize_ptp_def overflow_pose_def or_one_def flatten_def numeral_eq_Suc
        rnd_two_127)

subsection \<open>The degenerate pose\<close>

lemma foldl_pmax_replicate:
  "foldl pmax (Fin a, Fin b, Fin c) (replicate n (Fin a, Fin b, Fin c)) = (Fin a, Fin b, Fin c)"
  by (induction n) simp_all

lemma foldl_pmin_replicate:
  "foldl pmin (Fin a, Fin b, Fin c) (replicate n (Fin a, Fin b, Fin c)) = (Fin a, Fin b, Fin c)"
  by (induction n) simp_all

lemma flatten_replicate: "flatten (replicate n (v, v, v)) = replicate (3 * n) v"
proof (induction n)
  case 0
  show ?case by (simp add: flatten_def)
next
  case (Suc n)
  have e: "3 * Suc n = Suc (Suc (Suc (3 * n)))" by simp
  have "flatten (replicate (Suc n) (v, v, v)) = v # v # v # flatten (replicate n (v, v, v))"
    by (simp add: flatten_def)
  then show ?case by (simp only: Suc.IH e replicate.simps)
qed

lemma degenerate_vector:
  assumes "nrm (Fin 0, Fin 0, Fin 0) = Fin 0"
  shows "landmarks_to_vector nrm (replicate 21 (Fin a, Fin b, Fin c)) = Inr (replicate 65 (Fin 0))"
proof -
  let ?z = "(Fin 0, Fin 0, Fin 0)"
  let ?p = "(Fin a, Fin b, Fin c)"
  have r21: "replicate 21 x = x # replicate 20 x" for x :: point
    by (simp add: numeral_eq_Suc)
  have c: "map (\<lambda>p. psub p ?p) (replicate 21 ?p) = replicate 21 ?z"
    by simp
  have p: "ptp_axis0 (replicate 21 ?z) = Inr ?z"
    by (simp add: r21 foldl_pmax_replicate foldl_pmin_replicate)
  have a: "ptp_axis0 (map (\<lambda>p. psub p ?p) (replicate 21 ?p)) = Inr ?z"
    using p by (simp only: c)
  have s: "or_one (np_max ?z) = Fin 1"
    by (simp add: or_one_def)
  have n: "map (\<lambda>p. pdiv p (Fin 1)) (replicate k ?z) = replicate k ?z" for k
    by simp
  have f: "flatten (replicate 20 ?z) = replicate 60 (Fin 0)"
    by (simp add: flatten_replicate)
  have t: "rows (replicate 21 ?z) tip_ids = Inr (replicate 5 ?z)"
    by (simp add: tip_ids_def numeral_eq_Suc)
  have tl21: "tl (replicate 21 ?z) = replicate 20 ?z"
    by simp
  have t': "rows (map (\<lambda>p. pdiv p (or_one (np_max ?z))) (map (\<lambda>p. psub p ?p) (replicate 21 ?p))) tip_ids
      = Inr (replicate 5 ?z)"
    using t by (simp only: c s n)
  have "landmarks_to_vector nrm (replicate 21 ?p)
      = Inr (flatten (tl (replicate 21 ?z)) @ map nrm (replicate 5 ?z))"
    using landmarks_to_vector_cons [OF r21 a t'] by (simp only: c s n)
  then show ?thesis
    by (simp only: tl21 f) (simp add: assms replicate_add [symmetric])
qed

text \<open>
  C8. For a pose of 21 identical finite points, every range of the centred coordinates
  is zero, their maximum is zero and is replaced by 1, and both functions return the
  vector of zeros: nothing is divided by zero. This holds for the norm computed in
  \<open>float32\<close> and for every other norm that is zero on the zero row.
\<close>

theorem C8_degenerate_pose:
  "ptp_axis0 (map (\<lambda>p. psub p (Fin a, Fin b, Fin c)) (replicate 21 (Fin a, Fin b, Fin c)))
     = Inr (Fin 0, Fin 0, Fin 0)
   \<and> np_max (Fin 0, Fin 0, Fin 0) = Fin 0
   \<and> or_one (Fin 0) = Fin 1
   \<and> landmarks_to_vector norm3 (replicate 21 (Fin a, Fin b, Fin c)) = Inr (replicate 65 (Fin 0))
   \<and> normalize_ptp (replicate 21 (Fin a, Fin b, Fin c)) = Inr (replicate 60 (Fin 0))
   \<and> (nrm (Fin 0, Fin 0, Fin 0) = Fin 0 \<longrightarrow>
        landmarks_to_vector nrm (replicate 21 (Fin a, Fin b, Fin c)) = Inr (replicate 65 (Fin 0)))"
proof -
  let ?z = "(Fin 0, Fin 0, Fin 0)"
  let ?p = "(Fin a, Fin b, Fin c)"
  have r21: "replicate 21 x = x # replicate 20 x" for x :: point
    by (simp add: numeral_eq_Suc)
  have c: "map (\<lambda>p. psub p ?p) (replicate 21 ?p) = replicate 21 ?z"
    by simp
  have p: "ptp_axis0 (replicate 21 ?z) = Inr ?z"
    by (simp add: r21 foldl_pmax_replicate foldl_pmin_replicate)
  have a: "ptp_axis0 (map (\<lambda>p. psub p ?p) (replicate 21 ?p)) = Inr ?z"
    using p by (simp only: c)
  have s: "or_one (np_max ?z) = Fin 1"
    by (simp add: or_one_def)
  have n: "map (\<lambda>p. pdiv p (Fin 1)) (replicate k ?z) = replicate k ?z" for k
    by simp
  have f: "flatten (replicate 20 ?z) = replicate 60 (Fin 0)"
    by (simp add: flatten_replicate)
  have tl21: "tl (replicate 21 ?z) = replicate 20 ?z"
    by simp
  have z: "norm3 ?z = Fin 0" by simp
  have l: "landmarks_to_vector norm3 (replicate 21 ?p) = Inr (replicate 65 (Fin 0))"
    by (rule degenerate_vector [where nrm = norm3, OF z])
  have g: "nrm ?z = Fin 0 \<longrightarrow>
        landmarks_to_vector nrm (replicate 21 ?p) = Inr (replicate 65 (Fin 0))"
    using degenerate_vector by blast
  have "normalize_ptp (replicate 21 ?p) = Inr (flatten (replicate 20 ?z))"
    using normalize_ptp_cons [OF r21 a] by (simp only: c s n tl21)
  then have m: "normalize_ptp (replicate 21 ?p) = Inr (replicate 60 (Fin 0))"
    by (simp only: f)
  have o: "np_max ?z = Fin 0" "or_one (Fin 0) = Fin 1" by (simp_all add: or_one_def)
  from a o l m g show ?thesis by blast
qed

theorem C8_degenerate_pose_witness:
  "norm3 (Fin 0, Fin 0, Fin 0) = Fin 0
   \<and> landmarks_to_vector norm3 hand0 = Inr (replicate 65 (Fin 0))
   \<and> normalize_ptp hand0 = Inr (replicate 60 (Fin 0))"
proof -
  have z: "norm3 (Fin 0, Fin 0, Fin 0) = Fin 0" by simp
  note w = C8_degenerate_pose [of "0.5" "0.5" 0 norm3]
  from w z show ?thesis unfolding hand0_def by blast
qed

subsection \<open>Poses that are absent or not finite\<close>

lemma rows_total:
  "list_all (\<lambda>i. i < length lm) ids \<Longrightarrow> \<exists>ps. rows lm ids = Inr ps \<and> length ps = length ids"
  by (induction ids) auto

lemma landmarks_to_vector_total:
  assumes "20 < length hand"
  shows "\<exists>v. landmarks_to_vector nrm hand = Inr v \<and> length v = 3 * (length hand - 1) + 5"
proof -
  obtain w rest where h: "hand = w # rest" using assms by (cases hand) auto
  obtain r where r: "ptp_axis0 (map (\<lambda>p. psub p w) hand) = Inr r"
    by (simp add: h)
  let ?lm = "map (\<lambda>p. pdiv p (or_one (np_max r))) (map (\<lambda>p. psub p w) hand)"
  have "list_all (\<lambda>i. i < length ?lm) tip_ids"
    using assms by (simp add: tip_ids_def)
  then obtain tips where t: "rows ?lm tip_ids = Inr tips" "length tips = length tip_ids"
    using rows_total by blast
  have "landmarks_to_vector nrm hand = Inr (flatten (tl ?lm) @ map nrm tips)"
    by (rule landmarks_to_vector_cons [OF h r t(1)])
  moreover have "length (flatten (tl ?lm) @ map nrm tips) = 3 * (length hand - 1) + 5"
    by (simp add: length_flatten t(2) tip_ids_def)
  ultimately show ?thesis by simp
qed

text \<open>
  C5, as the two programs implement it. When no hand is detected, \<open>one_image_to_vector\<close>
  returns the message \<open>no_hand\<close> in place of a vector, and the client's \<open>onResults\<close>
  replaces the pending sample by the absent one, so that the next tick sends nothing.
  The coordinates are not tested for finiteness: a hand of at least 21 landmarks
  always gives a vector, whatever its coordinates are, and the client stores the
  flattened landmarks of a detected hand as they are.
\<close>

theorem C5_absent_and_unchecked:
  "(label \<noteq> ''nothing'' \<longrightarrow>
      one_image_to_vector nrm label (Readable None) = Inr (label, Inl ''no_hand'')
      \<and> one_image_to_vector nrm label (Readable (Some [])) = Inr (label, Inl ''no_hand''))
   \<and> lastFrameLandmarks (onResults None s) = None
   \<and> lastFrameLandmarks (onResults (Some []) s) = None
   \<and> tick (onResults None s) = onResults None s
   \<and> tick (onResults (Some []) s) = onResults (Some []) s
   \<and> (20 < length hand \<longrightarrow>
        (\<exists>v. landmarks_to_vector nrm hand = Inr v \<and> length v = 3 * (length hand - 1) + 5))
   \<and> lastFrameLandmarks (onResults (Some (hand # hands)) s) = Some (flatten hand)"
  using landmarks_to_vector_total [of hand nrm]
  by (simp add: one_image_to_vector_def onResults_def tick_def)

theorem C5_absent_and_unchecked_witness:
  "''A'' \<noteq> ''nothing''
   \<and> one_image_to_vector norm3 ''A'' (Readable None) = Inr (''A'', Inl ''no_hand'')
   \<and> lastFrameLandmarks (onResults None st_pending) = None
   \<and> tick (onResults None st_pending) = onResults None st_pending
   \<and> 20 < length nan_pose
   \<and> (\<exists>v. landmarks_to_vector norm3 nan_pose = Inr v \<and> length v = 65)
   \<and> lastFrameLandmarks (onResults (Some [nan_pose]) st_pending) = Some (flatten nan_pose)"
proof -
  have len: "length nan_pose = 21" by (simp add: nan_pose_def)
  show ?thesis
    using C5_absent_and_unchecked [of "''A''" norm3 st_pending nan_pose "[]"]
    by (simp add: len)
qed

text \<open>
  A pose with a NaN coordinate is not refused: the vector has 65 elements, all NaN, and
  \<open>one_image_to_vector\<close> returns it. In the client, a frame without a hand overwrites
  the pending sample, and the NaN pose is stored and sent.
\<close>

theorem C5_nan_pose_counterexample:
  "landmarks_to_vector norm3 nan_pose = Inr (replicate 65 NaN)
   \<and> one_image_to_vector norm3 ''A'' (Readable (Some [nan_pose]))
       = Inr (''A'', Inr (replicate 65 NaN))
   \<and> lastFrameLandmarks st_pending = Some (flatten hand0)
   \<and> lastFrameLandmarks (onResults None st_pending) = None
   \<and> pending (run init [Frame (Some [nan_pose]), Tick]) = [flatten nan_pose]"
proof -
  have v: "landmarks_to_vector norm3 nan_pose = Inr (replicate 65 NaN)"
    by (simp add: landmarks_to_vector_def nan_pose_def or_one_def tip_ids_def flatten_def
          numeral_eq_Suc)
  have o: "one_image_to_vector norm3 ''A'' (Readable (Some [nan_pose]))
      = Inr (''A'', Inr (replicate 65 NaN))"
    by (simp add: one_image_to_vector_def v)
  have c: "pending (run init [Frame (Some [nan_pose]), Tick]) = [flatten nan_pose]"
    by (simp add: run_def onResults_def init_def tick_def shouldSubmit_def THRESHOLD_eq
          sendPayload_call_def)
  show ?thesis
    using v o c by (simp add: st_pending_def onResults_def)
qed

end
